theory Spec2Isabelle
  imports Main "HOL-Library.Sublist"
begin

section \<open>Python values, errors and the outside world\<close>

text \<open>
  A Python \<open>str\<close> is represented by the list of the bytes of its UTF-8 encoding (an
  Isabelle \<open>string\<close>). Equality, concatenation and the substring test \<open>a in b\<close> of
  Python agree with equality, \<open>@\<close> and \<^const>\<open>sublist\<close> on that representation
  (UTF-8 is self-synchronising), and \<open>s.encode('utf-8')\<close> is the identity on it.

  A \<open>dict\<close> with string keys is an association list read with \<^const>\<open>map_of\<close>;
  a missing key raises \<open>KeyError\<close>.
\<close>

type_synonym 'v pydict = "(string \<times> 'v) list"

datatype error =
    KeyError string
  | NotImplementedError
  | AttributeError string
  | External string

text \<open>
  \<^const>\<open>External\<close> stands for any exception raised by code outside the package
  (aiohttp, the OAuth service, the FCM registration), named by a string.
\<close>

definition getitem :: "'v pydict \<Rightarrow> string \<Rightarrow> error + 'v" where
  "getitem d k = (case map_of d k of None \<Rightarrow> Inl (KeyError k) | Some v \<Rightarrow> Inr v)"

section \<open>notifications/NotificationBuilder.py\<close>

text \<open>
  The classes \<open>CallNotification\<close> and \<open>CallEndNotification\<close> are not among the
  sources: a value of \<open>INotification\<close> records which constructor was called and with
  which arguments.
\<close>

datatype INotification =
    CallNotification "string pydict" string
  | CallEndNotification "string pydict"

definition fromNotification :: "string pydict \<Rightarrow> string \<Rightarrow> error + INotification" where
  "fromNotification notification notificationId =
     (case getitem notification ''FermaxNotificationType'' of
        Inl err \<Rightarrow> Inl err
      | Inr t1 \<Rightarrow>
          if t1 = ''Call'' then Inr (CallNotification notification notificationId)
          else (case getitem notification ''FermaxNotificationType'' of
                  Inl err \<Rightarrow> Inl err
                | Inr t2 \<Rightarrow>
                    if t2 = ''CallEnd'' then Inr (CallEndNotification notification)
                    else Inl NotImplementedError))"

section \<open>BlueConAPI.py: the client, its storages and its effects\<close>

record OAuthToken =
  access_token :: string
  refresh_token :: string
  expires_on :: int

text \<open>
  The credentials returned by \<open>AndroidFCM.register\<close> are a dict of dicts; the
  code reads \<open>credentials["fcm"]["token"]\<close>.
\<close>

type_synonym credentials = "(string pydict) pydict"

text \<open>HTTP requests the client sends to the vendor cloud, with the token whose bearer
  header they carry.\<close>

datatype request =
    AckRequest string OAuthToken
  | AppTokenRequest string bool OAuthToken

text \<open>
  Everything the client does to the outside world is appended to a trace, in the order
  in which the code does it.
\<close>

datatype event =
    RefreshExchange string OAuthToken
  | StoreOAuthToken OAuthToken
  | FcmRegister string string int string string string
  | StoreCredentials credentials
  | StorePersistentId string
  | Post request
  | Callback INotification

text \<open>
  The fields of a \<open>BlueConAPI\<close> object, the contents of the two storages it was
  constructed with, and the trace. \<open>oAuthTokenStorage\<close> holds at most one token,
  \<open>credentialsStorage\<close> at most one credential record, \<open>persistentIdsStorage\<close> is
  \<open>None\<close> or the list \<open>retrievePersistentIds\<close> returns.
\<close>

record BlueConAPI =
  clientId :: string
  clientSecret :: string
  senderId :: int
  apiKey :: string
  projectId :: string
  appId :: string
  packageName :: string
  deviceId :: "string option"
  oAuthTokenStorage :: "OAuthToken option"
  credentialsStorage :: "credentials option"
  persistentIdsStorage :: "string list option"
  trace :: "event list"

text \<open>
  The collaborators that are not part of \<open>BlueConAPI.py\<close> are parameters. Those that
  talk to a network get the trace so far as an argument, so the same request may be
  answered differently at different times. An HTTP exchange answers with a status code
  or raises.
\<close>

record env =
  now :: int
  margin :: nat
  b64encode :: "string \<Rightarrow> string"
  sha512_hexdigest :: "string \<Rightarrow> string"
  updateOAuthToken :: "event list \<Rightarrow> string \<Rightarrow> OAuthToken \<Rightarrow> error + OAuthToken"
  http_post :: "event list \<Rightarrow> request \<Rightarrow> error + int"
  fcm_register :: "event list \<Rightarrow> string \<Rightarrow> string \<Rightarrow> int \<Rightarrow> string \<Rightarrow> string \<Rightarrow> string
                    \<Rightarrow> error + credentials"
  shouldAcknowledge :: "INotification \<Rightarrow> bool"
  getFcmMessageId :: "INotification \<Rightarrow> string"

definition emit :: "event \<Rightarrow> BlueConAPI \<Rightarrow> BlueConAPI" where
  "emit ev s = s\<lparr>trace := trace s @ [ev]\<rparr>"

subsection \<open>OAuth token\<close>

text \<open>
  Modelled from the spec: \<open>OAuthToken.isExpired\<close> is not among the sources. The spec's
  data model says that the expiry of a token is checked with a safety margin before
  use; the clock reading \<open>now\<close> and the margin are parameters.
\<close>

definition isExpired :: "env \<Rightarrow> OAuthToken \<Rightarrow> bool" where
  "isExpired e tok = (expires_on tok \<le> now e + int (margin e))"

definition getAuthHeader :: "env \<Rightarrow> BlueConAPI \<Rightarrow> string" where
  "getAuthHeader e s = b64encode e (clientId s @ '':'' @ clientSecret s)"

text \<open>
  \<open>__getOrRefreshOAuthToken\<close>. A storage without a token makes \<open>retrieveOAuthToken\<close>
  return \<open>None\<close>, and \<open>None.isExpired()\<close> raises \<open>AttributeError\<close>.
\<close>

definition getOrRefreshOAuthToken :: "env \<Rightarrow> BlueConAPI \<Rightarrow> (error + OAuthToken) \<times> BlueConAPI" where
  "getOrRefreshOAuthToken e s =
     (case oAuthTokenStorage s of
        None \<Rightarrow> (Inl (AttributeError ''isExpired''), s)
      | Some oAuthToken \<Rightarrow>
          if isExpired e oAuthToken then
            (let s1 = emit (RefreshExchange (getAuthHeader e s) oAuthToken) s in
             case updateOAuthToken e (trace s) (getAuthHeader e s) oAuthToken of
               Inl err \<Rightarrow> (Inl err, s1)
             | Inr oAuthToken' \<Rightarrow>
                 (Inr oAuthToken',
                  emit (StoreOAuthToken oAuthToken') (s1\<lparr>oAuthTokenStorage := Some oAuthToken'\<rparr>)))
          else (Inr oAuthToken, s))"

subsection \<open>Acknowledgment\<close>

text \<open>
  \<open>acknowledgeNotification\<close>. Python evaluates the arguments of \<open>session.post\<close>
  (the token among them) before the request is sent. A function body that ends without
  \<open>return\<close> returns \<open>None\<close>: the result is a \<open>bool option\<close>.
\<close>

definition acknowledgeNotification ::
    "env \<Rightarrow> BlueConAPI \<Rightarrow> INotification \<Rightarrow> (error + bool option) \<times> BlueConAPI" where
  "acknowledgeNotification e s notification =
     (if shouldAcknowledge e notification then
        (case getOrRefreshOAuthToken e s of
           (Inl err, s1) \<Rightarrow> (Inl err, s1)
         | (Inr tok, s1) \<Rightarrow>
             (let req = AckRequest (getFcmMessageId e notification) tok in
              case http_post e (trace s1) req of
                Inl err \<Rightarrow> (Inl err, emit (Post req) s1)
              | Inr status \<Rightarrow> (Inr (Some (status = 200)), emit (Post req) s1)))
      else (Inr None, s))"

subsection \<open>Registration of the app token\<close>

text \<open>\<open>str(n)\<close> for a Python \<open>int\<close>: the decimal digits, with a minus sign for a
  negative number.\<close>

fun str_nat :: "nat \<Rightarrow> string" where
  "str_nat n =
     (if n < 10 then [char_of (48 + n)]
      else str_nat (n div 10) @ [char_of (48 + n mod 10)])"

declare str_nat.simps [simp del]

definition str_int :: "int \<Rightarrow> string" where
  "str_int i = (if i < 0 then CHR ''-'' # str_nat (nat (- i)) else str_nat (nat i))"

text \<open>
  A \<open>hashlib.sha512()\<close> object is the sequence of bytes fed to it so far:
  \<open>update\<close> appends, and \<open>hexdigest\<close> is the digest of the whole sequence. The digest
  function itself belongs to the Python library and is the parameter
  \<^const>\<open>sha512_hexdigest\<close>.
\<close>

definition sha512_new :: string where
  "sha512_new = []"

definition sha_update :: "string \<Rightarrow> string \<Rightarrow> string" where
  "sha_update sha data = sha @ data"

definition buildPackageCert :: "env \<Rightarrow> BlueConAPI \<Rightarrow> string" where
  "buildPackageCert e s =
     (let sha = sha512_new;
          sha = sha_update sha (str_int (senderId s));
          sha = sha_update sha (appId s);
          sha = sha_update sha (apiKey s);
          sha = sha_update sha (projectId s);
          sha = sha_update sha (packageName s)
      in sha512_hexdigest e sha)"

text \<open>
  The block \<open>if self.deviceId is None: ...\<close> of \<open>registerAppToken\<close>; it returns the
  value of \<open>self.deviceId\<close> after the block.
\<close>

definition registerAppToken_deviceId :: "env \<Rightarrow> BlueConAPI \<Rightarrow> (error + string) \<times> BlueConAPI" where
  "registerAppToken_deviceId e s =
     (case deviceId s of
        Some d \<Rightarrow> (Inr d, s)
      | None \<Rightarrow>
          (let PACKAGE_CERT = buildPackageCert e s in
           case (case credentialsStorage s of
                   Some credentials \<Rightarrow> (Inr credentials, s)
                 | None \<Rightarrow>
                     (let s1 = emit (FcmRegister (apiKey s) (projectId s) (senderId s) (appId s)
                                       (packageName s) PACKAGE_CERT) s in
                      case fcm_register e (trace s) (apiKey s) (projectId s) (senderId s) (appId s)
                             (packageName s) PACKAGE_CERT of
                        Inl err \<Rightarrow> (Inl err, s1)
                      | Inr credentials \<Rightarrow>
                          (Inr credentials,
                           emit (StoreCredentials credentials)
                             (s1\<lparr>credentialsStorage := Some credentials\<rparr>)))) of
             (Inl err, s2) \<Rightarrow> (Inl err, s2)
           | (Inr credentials, s2) \<Rightarrow>
               (case getitem credentials ''fcm'' of
                  Inl err \<Rightarrow> (Inl err, s2)
                | Inr fcm \<Rightarrow>
                    (case getitem fcm ''token'' of
                       Inl err \<Rightarrow> (Inl err, s2)
                     | Inr token \<Rightarrow> (Inr token, s2\<lparr>deviceId := Some token\<rparr>)))))"

definition registerAppToken :: "env \<Rightarrow> BlueConAPI \<Rightarrow> bool \<Rightarrow> (error + bool) \<times> BlueConAPI" where
  "registerAppToken e s active =
     (case registerAppToken_deviceId e s of
        (Inl err, s3) \<Rightarrow> (Inl err, s3)
      | (Inr token, s3) \<Rightarrow>
          (case getOrRefreshOAuthToken e s3 of
             (Inl err, s4) \<Rightarrow> (Inl err, s4)
           | (Inr tok, s4) \<Rightarrow>
               (let req = AppTokenRequest token active tok in
                case http_post e (trace s4) req of
                  Inl err \<Rightarrow> (Inl err, emit (Post req) s4)
                | Inr status \<Rightarrow> (Inr (status = 200), emit (Post req) s4))))"

subsection \<open>The notification listener\<close>

text \<open>The fields of a push message's \<open>data_message\<close> that the code reads.\<close>

record data_message =
  persistent_id :: string
  id' :: string

text \<open>
  Modelled from the spec: the class behind \<open>INotificationInfoStorage\<close> is not among the
  sources. The spec describes the persistent ids as an append-only log that is never
  deleted from and is loaded fully on each check; \<open>storeId(id)\<close> appends.
\<close>

definition storePersistentId :: "string \<Rightarrow> BlueConAPI \<Rightarrow> BlueConAPI" where
  "storePersistentId idstr s =
     emit (StorePersistentId idstr)
       (s\<lparr>persistentIdsStorage :=
            Some (case persistentIdsStorage s of None \<Rightarrow> [idstr] | Some ids \<Rightarrow> ids @ [idstr])\<rparr>)"

text \<open>
  The test \<open>received_persistent_ids is not None and any(idstr in x for x in
  received_persistent_ids)\<close>; \<open>idstr in x\<close> on two strings is the substring test.
\<close>

definition already_received :: "BlueConAPI \<Rightarrow> string \<Rightarrow> bool" where
  "already_received s idstr =
     (case persistentIdsStorage s of
        None \<Rightarrow> False
      | Some received_persistent_ids \<Rightarrow> list_ex (\<lambda>x. sublist idstr x) received_persistent_ids)"

text \<open>The persistent ids in the storage, none when \<open>retrievePersistentIds\<close>
  returns \<open>None\<close>.\<close>

definition stored_ids :: "BlueConAPI \<Rightarrow> string list" where
  "stored_ids s = (case persistentIdsStorage s of None \<Rightarrow> [] | Some ids \<Rightarrow> ids)"

text \<open>
  The part of \<open>on_notification\<close> after the persistent id is stored: decode,
  acknowledge, call back. An exception leaves the function at once.
\<close>

definition deliver :: "env \<Rightarrow> BlueConAPI \<Rightarrow> string pydict \<Rightarrow> data_message \<Rightarrow> (error + unit) \<times> BlueConAPI" where
  "deliver e s notification dm =
     (case fromNotification notification (id' dm) of
        Inl err \<Rightarrow> (Inl err, s)
      | Inr blueConNotification \<Rightarrow>
          (case acknowledgeNotification e s blueConNotification of
             (Inl err, s1) \<Rightarrow> (Inl err, s1)
           | (Inr _, s1) \<Rightarrow> (Inr (), emit (Callback blueConNotification) s1)))"

definition on_notification :: "env \<Rightarrow> BlueConAPI \<Rightarrow> string pydict \<Rightarrow> data_message \<Rightarrow> (error + unit) \<times> BlueConAPI" where
  "on_notification e s notification dm =
     (let idstr = persistent_id dm in
      if already_received s idstr then (Inr (), s)
      else deliver e (storePersistentId idstr s) notification dm)"


text \<open>The notifications the callback was invoked with, in order.\<close>

fun callbacks :: "event list \<Rightarrow> INotification list" where
  "callbacks [] = []"
| "callbacks (Callback n # evs) = n # callbacks evs"
| "callbacks (_ # evs) = callbacks evs"

text \<open>The number of calls of \<open>AndroidFCM.register\<close> in a trace.\<close>

fun fcm_registrations :: "event list \<Rightarrow> nat" where
  "fcm_registrations [] = 0"
| "fcm_registrations (FcmRegister a p s g n c # evs) = Suc (fcm_registrations evs)"
| "fcm_registrations (_ # evs) = fcm_registrations evs"

section \<open>Concrete inputs\<close>

text \<open>
  A client whose token is valid until 1000 on a clock that reads 100, with stored
  credentials and no persistent ids yet; a cloud that answers every request with 200;
  notifications of type \<open>Call\<close> require an acknowledgment. The identity stands in for
  the two library encoders.
\<close>

definition ex_token :: OAuthToken where
  "ex_token = \<lparr>access_token = ''at0'', refresh_token = ''rt0'', expires_on = 1000\<rparr>"

definition ex_credentials :: credentials where
  "ex_credentials = [(''fcm'', [(''token'', ''dev1'')])]"

definition ex_env :: env where
  "ex_env =
     \<lparr>now = 100, margin = 30, b64encode = (\<lambda>s. s), sha512_hexdigest = (\<lambda>s. s),
      updateOAuthToken = (\<lambda>h hdr t. Inr (t\<lparr>access_token := ''at1'', expires_on := 5000\<rparr>)),
      http_post = (\<lambda>h r. Inr 200),
      fcm_register = (\<lambda>h a p s g n c. Inr ex_credentials),
      shouldAcknowledge = (\<lambda>n. case n of CallNotification _ _ \<Rightarrow> True | CallEndNotification _ \<Rightarrow> False),
      getFcmMessageId = (\<lambda>n. case n of CallNotification _ i \<Rightarrow> i | CallEndNotification _ \<Rightarrow> [])\<rparr>"

text \<open>The same world with a cloud that answers 500, and with one whose requests raise.\<close>

definition ex_env_500 :: env where
  "ex_env_500 = ex_env\<lparr>http_post := (\<lambda>h r. Inr 500)\<rparr>"

definition ex_env_down :: env where
  "ex_env_down = ex_env\<lparr>http_post := (\<lambda>h r. Inl (External ''aiohttp.ClientConnectionError''))\<rparr>"

definition ex_client :: BlueConAPI where
  "ex_client =
     \<lparr>clientId = ''cid'', clientSecret = ''secret'', senderId = 42, apiKey = ''key'',
      projectId = ''proj'', appId = ''app'', packageName = ''pkg'', deviceId = None,
      oAuthTokenStorage = Some ex_token,
      credentialsStorage = Some ex_credentials,
      persistentIdsStorage = None, trace = []\<rparr>"

definition ex_call :: "string pydict" where
  "ex_call = [(''FermaxNotificationType'', ''Call''), (''DeviceId'', ''d1'')]"

definition ex_call_end :: "string pydict" where
  "ex_call_end = [(''FermaxNotificationType'', ''CallEnd''), (''DeviceId'', ''d1'')]"

definition ex_other :: "string pydict" where
  "ex_other = [(''FermaxNotificationType'', ''Ring''), (''DeviceId'', ''d1'')]"

definition ex_dm :: "string \<Rightarrow> string \<Rightarrow> data_message" where
  "ex_dm p i = \<lparr>persistent_id = p, id' = i\<rparr>"

text \<open>A client that has already stored the persistent id \<open>ab\<close>.\<close>

definition ex_client_ab :: BlueConAPI where
  "ex_client_ab = ex_client\<lparr>persistentIdsStorage := Some [''ab'']\<rparr>"

text \<open>A token that expired at 50, the token the example OAuth service answers a
  refresh of it with, and a client that holds the expired token.\<close>

definition ex_token_old :: OAuthToken where
  "ex_token_old = \<lparr>access_token = ''at0'', refresh_token = ''rt0'', expires_on = 50\<rparr>"

definition ex_token_new :: OAuthToken where
  "ex_token_new = \<lparr>access_token = ''at1'', refresh_token = ''rt0'', expires_on = 5000\<rparr>"

definition ex_client_expired :: BlueConAPI where
  "ex_client_expired = ex_client\<lparr>oAuthTokenStorage := Some ex_token_old\<rparr>"

text \<open>An OAuth service that answers every refresh with a token that expired at 0, the
  token it answers the refresh of the token above with, and an OAuth service whose
  refresh exchange raises.\<close>

definition ex_env_stale :: env where
  "ex_env_stale = ex_env\<lparr>updateOAuthToken := (\<lambda>h hdr t. Inr (t\<lparr>expires_on := 0\<rparr>))\<rparr>"

definition ex_token_stale :: OAuthToken where
  "ex_token_stale = \<lparr>access_token = ''at0'', refresh_token = ''rt0'', expires_on = 0\<rparr>"

definition ex_env_refused :: env where
  "ex_env_refused = ex_env\<lparr>updateOAuthToken := (\<lambda>h hdr t. Inl (External ''invalid_grant''))\<rparr>"

section \<open>Frame lemmas\<close>

lemma callbacks_append: "callbacks (xs @ ys) = callbacks xs @ callbacks ys"
  by (induction xs rule: callbacks.induct) simp_all

lemma already_received_iff:
  "already_received s idstr \<longleftrightarrow>
     (\<exists>ids x. persistentIdsStorage s = Some ids \<and> x \<in> set ids \<and> sublist idstr x)"
  by (auto simp: already_received_def list_ex_iff split: option.splits)

lemma already_received_stored:
  "already_received s idstr \<longleftrightarrow> (\<exists>x \<in> set (stored_ids s). sublist idstr x)"
  by (auto simp: already_received_def stored_ids_def list_ex_iff split: option.splits)

lemma getOrRefreshOAuthToken_frame:
  "\<exists>evs. trace (snd (getOrRefreshOAuthToken e s)) = trace s @ evs \<and> callbacks evs = []"
  "persistentIdsStorage (snd (getOrRefreshOAuthToken e s)) = persistentIdsStorage s"
  "credentialsStorage (snd (getOrRefreshOAuthToken e s)) = credentialsStorage s"
  "deviceId (snd (getOrRefreshOAuthToken e s)) = deviceId s"
  by (auto simp: getOrRefreshOAuthToken_def emit_def Let_def split: option.splits sum.splits)

lemma acknowledgeNotification_frame:
  "\<exists>evs. trace (snd (acknowledgeNotification e s n)) = trace s @ evs \<and> callbacks evs = []"
  "persistentIdsStorage (snd (acknowledgeNotification e s n)) = persistentIdsStorage s"
proof -
  obtain r s1 where g: "getOrRefreshOAuthToken e s = (r, s1)"
    by (cases "getOrRefreshOAuthToken e s")
  from getOrRefreshOAuthToken_frame(1) [of e s] g
  obtain evs where evs: "trace s1 = trace s @ evs" "callbacks evs = []"
    by auto
  from getOrRefreshOAuthToken_frame(2) [of e s] g
  have p: "persistentIdsStorage s1 = persistentIdsStorage s"
    by simp
  show "\<exists>evs. trace (snd (acknowledgeNotification e s n)) = trace s @ evs \<and> callbacks evs = []"
    using g evs
    by (auto simp: acknowledgeNotification_def emit_def Let_def callbacks_append split: sum.splits)
  show "persistentIdsStorage (snd (acknowledgeNotification e s n)) = persistentIdsStorage s"
    using g p
    by (auto simp: acknowledgeNotification_def emit_def Let_def split: sum.splits)
qed

lemma deliver_frame:
  "\<exists>evs. trace (snd (deliver e s n dm)) = trace s @ evs"
  "persistentIdsStorage (snd (deliver e s n dm)) = persistentIdsStorage s"
proof -
  show "\<exists>evs. trace (snd (deliver e s n dm)) = trace s @ evs"
  proof (cases "fromNotification n (id' dm)")
    case (Inl err)
    then show ?thesis by (simp add: deliver_def)
  next
    case (Inr bn)
    obtain r s1 where a: "acknowledgeNotification e s bn = (r, s1)"
      by (cases "acknowledgeNotification e s bn")
    from acknowledgeNotification_frame(1) [of e s bn] a
    obtain evs where "trace s1 = trace s @ evs" by auto
    with Inr a show ?thesis
      by (cases r) (simp_all add: deliver_def emit_def)
  qed
  show "persistentIdsStorage (snd (deliver e s n dm)) = persistentIdsStorage s"
  proof (cases "fromNotification n (id' dm)")
    case (Inl err)
    then show ?thesis by (simp add: deliver_def)
  next
    case (Inr bn)
    obtain r s1 where a: "acknowledgeNotification e s bn = (r, s1)"
      by (cases "acknowledgeNotification e s bn")
    from acknowledgeNotification_frame(2) [of e s bn] a
    have "persistentIdsStorage s1 = persistentIdsStorage s" by simp
    with Inr a show ?thesis
      by (cases r) (simp_all add: deliver_def emit_def)
  qed
qed

lemma fcm_registrations_append:
  "fcm_registrations (xs @ ys) = fcm_registrations xs + fcm_registrations ys"
  by (induction xs rule: fcm_registrations.induct) simp_all

lemma getOrRefreshOAuthToken_no_registration:
  "\<exists>evs. trace (snd (getOrRefreshOAuthToken e s)) = trace s @ evs \<and> fcm_registrations evs = 0"
  by (auto simp: getOrRefreshOAuthToken_def emit_def Let_def split: option.splits sum.splits)

lemma registerAppToken_deviceId_cached:
  assumes "credentialsStorage s = Some c"
  shows "trace (snd (registerAppToken_deviceId e s)) = trace s"
    and "credentialsStorage (snd (registerAppToken_deviceId e s)) = Some c"
  using assms
  by (auto simp: registerAppToken_deviceId_def Let_def split: option.splits sum.splits)

lemma registerAppToken_deviceId_token:
  assumes "credentialsStorage s = Some c"
    and "getitem c ''fcm'' = Inr fcm" and "getitem fcm ''token'' = Inr token"
    and "deviceId s = None \<or> deviceId s = Some token"
  shows "registerAppToken_deviceId e s = (Inr token, s\<lparr>deviceId := Some token\<rparr>)"
  using assms
  by (auto simp: registerAppToken_deviceId_def Let_def)

lemma registerAppToken_cached:
  assumes "credentialsStorage s = Some c"
  shows "fcm_registrations (trace (snd (registerAppToken e s active))) = fcm_registrations (trace s)"
    and "credentialsStorage (snd (registerAppToken e s active)) = Some c"
proof -
  obtain r s3 where d: "registerAppToken_deviceId e s = (r, s3)"
    by (cases "registerAppToken_deviceId e s")
  from registerAppToken_deviceId_cached [OF assms, of e] d
  have s3: "trace s3 = trace s" "credentialsStorage s3 = Some c"
    by simp_all
  obtain r' s4 where g: "getOrRefreshOAuthToken e s3 = (r', s4)"
    by (cases "getOrRefreshOAuthToken e s3")
  from getOrRefreshOAuthToken_no_registration [of e s3] g
  obtain evs where evs: "trace s4 = trace s3 @ evs" "fcm_registrations evs = 0"
    by auto
  from getOrRefreshOAuthToken_frame(3) [of e s3] g s3
  have c4: "credentialsStorage s4 = Some c"
    by simp
  show "fcm_registrations (trace (snd (registerAppToken e s active))) = fcm_registrations (trace s)"
    using d g s3 evs
    by (auto simp: registerAppToken_def Let_def emit_def fcm_registrations_append split: sum.splits)
  show "credentialsStorage (snd (registerAppToken e s active)) = Some c"
    using d g s3 c4
    by (auto simp: registerAppToken_def Let_def emit_def split: sum.splits)
qed






section \<open>Decoding a notification\<close>

text \<open>
  C4. \<open>NotificationBuilder.fromNotification\<close> dispatches on the value stored under
  \<open>FermaxNotificationType\<close>: \<open>Call\<close> gives a \<open>CallNotification\<close> built from the dict
  and the notification id, \<open>CallEnd\<close> gives a \<open>CallEndNotification\<close> built from the
  dict, and every other value raises (Python's \<open>NotImplementedError\<close>): no value is
  returned and nothing is dropped silently.
\<close>

theorem fromNotification_discriminator:
  "(map_of n ''FermaxNotificationType'' = Some ''Call'' \<longrightarrow>
      fromNotification n nid = Inr (CallNotification n nid)) \<and>
   (map_of n ''FermaxNotificationType'' = Some ''CallEnd'' \<longrightarrow>
      fromNotification n nid = Inr (CallEndNotification n)) \<and>
   (\<forall>t. map_of n ''FermaxNotificationType'' = Some t \<and> t \<noteq> ''Call'' \<and> t \<noteq> ''CallEnd'' \<longrightarrow>
      fromNotification n nid = Inl NotImplementedError)"
  by (simp add: fromNotification_def getitem_def)

theorem fromNotification_discriminator_witness:
  "fromNotification ex_call ''m1'' = Inr (CallNotification ex_call ''m1'') \<and>
   fromNotification ex_call_end ''m2'' = Inr (CallEndNotification ex_call_end) \<and>
   fromNotification ex_other ''m3'' = Inl NotImplementedError"
  using fromNotification_discriminator [of ex_call "''m1''"]
    fromNotification_discriminator [of ex_call_end "''m2''"]
    fromNotification_discriminator [of ex_other "''m3''"]
  by (simp add: ex_call_def ex_call_end_def ex_other_def)

section \<open>Acknowledging a notification\<close>

text \<open>
  C10. \<open>acknowledgeNotification\<close> returns \<open>None\<close> and leaves the client and the
  trace untouched (no HTTP call) when \<open>shouldAcknowledge()\<close> is false. It never returns
  \<open>None\<close> when \<open>shouldAcknowledge()\<close> is true, and whenever it returns a boolean,
  \<open>shouldAcknowledge()\<close> was true, the acknowledgment request was posted with the
  token obtained before, and the boolean is \<open>status == 200\<close>.
\<close>

theorem acknowledgeNotification_result:
  "(\<not> shouldAcknowledge e n \<longrightarrow> acknowledgeNotification e s n = (Inr None, s)) \<and>
   (shouldAcknowledge e n \<longrightarrow> fst (acknowledgeNotification e s n) \<noteq> Inr None) \<and>
   (\<forall>b s'. acknowledgeNotification e s n = (Inr (Some b), s') \<longrightarrow>
      shouldAcknowledge e n \<and>
      (\<exists>tok s1 status.
         getOrRefreshOAuthToken e s = (Inr tok, s1) \<and>
         http_post e (trace s1) (AckRequest (getFcmMessageId e n) tok) = Inr status \<and>
         b = (status = 200) \<and>
         s' = emit (Post (AckRequest (getFcmMessageId e n) tok)) s1))"
  by (auto simp: acknowledgeNotification_def Let_def split: prod.splits sum.splits)

theorem acknowledgeNotification_result_witness:
  "acknowledgeNotification ex_env ex_client (CallEndNotification ex_call_end) = (Inr None, ex_client) \<and>
   shouldAcknowledge ex_env (CallNotification ex_call ''m1'') \<and>
   fst (acknowledgeNotification ex_env_500 ex_client (CallNotification ex_call ''m1'')) = Inr (Some False) \<and>
   fst (acknowledgeNotification ex_env ex_client (CallNotification ex_call ''m1'')) = Inr (Some True)"
  using acknowledgeNotification_result [of ex_env "CallEndNotification ex_call_end" ex_client]
    acknowledgeNotification_result [of ex_env "CallNotification ex_call ''m1''" ex_client]
  by (simp add: acknowledgeNotification_def getOrRefreshOAuthToken_def isExpired_def Let_def
      ex_env_def ex_env_500_def ex_client_def ex_token_def)

section \<open>The duplicate check of the listener\<close>

text \<open>
  C7. The duplicate check is substring containment: a message whose persistent id is a
  substring of some stored persistent id, equal to it or not, is discarded. The call
  returns normally with the client unchanged, so the id is not stored, no
  acknowledgment is sent and the callback is not invoked.
\<close>

theorem on_notification_substring_discarded:
  assumes "persistentIdsStorage s = Some ids" and "x \<in> set ids"
    and "sublist (persistent_id dm) x"
  shows "on_notification e s n dm = (Inr (), s)"
proof -
  have "already_received s (persistent_id dm)"
    using assms already_received_iff by blast
  then show ?thesis
    by (simp add: on_notification_def)
qed

theorem on_notification_substring_discarded_witness:
  "''b'' \<noteq> ''ab'' \<and>
   on_notification ex_env ex_client_ab ex_call (ex_dm ''b'' ''m1'') = (Inr (), ex_client_ab)"
proof -
  have 1: "persistentIdsStorage ex_client_ab = Some [''ab'']"
    by (simp add: ex_client_ab_def)
  have 2: "''ab'' \<in> set [''ab'']"
    by simp
  have 3: "sublist (persistent_id (ex_dm ''b'' ''m1'')) ''ab''"
    by (simp add: ex_dm_def sublist_Cons_right)
  show ?thesis
    using on_notification_substring_discarded [OF 1 2 3] by simp
qed

section \<open>The order of effects in the listener\<close>

text \<open>
  C6, as the claim states it, fails: the persistent id \<open>b\<close> is not in the seen-set
  \<open>[ab]\<close>, yet the message is discarded and its id is never recorded, because \<open>b\<close>
  is a substring of \<open>ab\<close>.
\<close>

theorem on_notification_records_id_counterexample:
  "persistentIdsStorage ex_client_ab = Some [''ab''] \<and> ''b'' \<notin> set [''ab''] \<and>
   on_notification ex_env ex_client_ab ex_call (ex_dm ''b'' ''m1'') = (Inr (), ex_client_ab) \<and>
   persistentIdsStorage (snd (on_notification ex_env ex_client_ab ex_call (ex_dm ''b'' ''m1''))) = Some [''ab''] \<and>
   trace (snd (on_notification ex_env ex_client_ab ex_call (ex_dm ''b'' ''m1''))) = []"
  by (simp add: on_notification_def already_received_def ex_client_ab_def ex_client_def ex_dm_def
      sublist_Cons_right)

text \<open>
  C6, amended. For every incoming message whose persistent id is not a substring of
  any stored persistent id, \<open>on_notification\<close> stores the id first: the rest of the
  call (decoding, acknowledgment, callback) runs on the client in which the id is
  already stored; in the trace the store is the first new event, before any request or
  callback; and whatever the outcome of the call, a raised exception included, the
  storage ends with the old ids followed by this id.
\<close>

theorem on_notification_records_id_first:
  assumes "\<forall>x \<in> set (stored_ids s). \<not> sublist (persistent_id dm) x"
  shows "on_notification e s n dm = deliver e (storePersistentId (persistent_id dm) s) n dm \<and>
         (\<exists>rest. trace (snd (on_notification e s n dm)) =
                   trace s @ StorePersistentId (persistent_id dm) # rest) \<and>
         persistentIdsStorage (snd (on_notification e s n dm)) =
           Some (stored_ids s @ [persistent_id dm])"
proof -
  let ?s1 = "storePersistentId (persistent_id dm) s"
  have "\<not> already_received s (persistent_id dm)"
    using assms already_received_stored by blast
  then have eq: "on_notification e s n dm = deliver e ?s1 n dm"
    by (simp add: on_notification_def)
  have t1: "trace ?s1 = trace s @ [StorePersistentId (persistent_id dm)]"
    by (simp add: storePersistentId_def emit_def)
  have p1: "persistentIdsStorage ?s1 =
      Some (stored_ids s @ [persistent_id dm])"
    by (simp add: storePersistentId_def emit_def stored_ids_def split: option.splits)
  from deliver_frame(1) [of e ?s1 n dm] obtain evs
    where "trace (snd (deliver e ?s1 n dm)) = trace ?s1 @ evs" by blast
  with t1 have "trace (snd (deliver e ?s1 n dm)) =
      trace s @ StorePersistentId (persistent_id dm) # evs"
    by simp
  with eq p1 deliver_frame(2) [of e ?s1 n dm] show ?thesis
    by simp
qed

theorem on_notification_records_id_first_witness:
  "on_notification ex_env ex_client_ab ex_other (ex_dm ''c'' ''m1'') =
     deliver ex_env (storePersistentId ''c'' ex_client_ab) ex_other (ex_dm ''c'' ''m1'') \<and>
   (\<exists>rest. trace (snd (on_notification ex_env ex_client_ab ex_other (ex_dm ''c'' ''m1''))) =
             trace ex_client_ab @ StorePersistentId ''c'' # rest) \<and>
   persistentIdsStorage (snd (on_notification ex_env ex_client_ab ex_other (ex_dm ''c'' ''m1''))) =
     Some [''ab'', ''c'']"
proof -
  have h: "\<forall>x \<in> set (stored_ids ex_client_ab). \<not> sublist (persistent_id (ex_dm ''c'' ''m1'')) x"
    by (simp add: stored_ids_def ex_client_ab_def ex_dm_def sublist_Cons_right)
  have p: "persistent_id (ex_dm ''c'' ''m1'') = ''c''"
    by (simp add: ex_dm_def)
  have q: "stored_ids ex_client_ab = [''ab'']"
    by (simp add: stored_ids_def ex_client_ab_def)
  show ?thesis
    using on_notification_records_id_first [of ex_client_ab "ex_dm ''c'' ''m1''" ex_env ex_other, OF h]
    by (auto simp: p q)
qed

section \<open>Acknowledgment failures and the callback\<close>

text \<open>
  C2, as the claim states it, fails for a transport error: when the acknowledgment
  request raises, the exception leaves \<open>on_notification\<close> (the code has no
  \<open>try\<close>) and the callback is not invoked.
\<close>

theorem on_notification_ack_raises_counterexample:
  "fromNotification ex_call ''m1'' = Inr (CallNotification ex_call ''m1'') \<and>
   shouldAcknowledge ex_env_down (CallNotification ex_call ''m1'') \<and>
   fst (on_notification ex_env_down ex_client ex_call (ex_dm ''a'' ''m1'')) =
     Inl (External ''aiohttp.ClientConnectionError'') \<and>
   callbacks (trace (snd (on_notification ex_env_down ex_client ex_call (ex_dm ''a'' ''m1'')))) = []"
  by (simp add: on_notification_def already_received_def deliver_def acknowledgeNotification_def
      getOrRefreshOAuthToken_def isExpired_def storePersistentId_def emit_def fromNotification_def
      getitem_def Let_def ex_env_down_def ex_env_def ex_client_def ex_token_def ex_call_def ex_dm_def)

text \<open>
  C2, amended. For every incoming message that passes the duplicate check and decodes
  to a notification that requires acknowledgment, once the token for the request is
  obtained: if the acknowledgment request is answered with an HTTP status, 200 or not,
  \<open>on_notification\<close> returns normally and the callback is invoked with the decoded
  notification right after the request; if the request raises, \<open>on_notification\<close>
  raises the same error and the callback is not invoked.
\<close>

theorem on_notification_ack_outcome:
  assumes fresh: "\<forall>x \<in> set (stored_ids s). \<not> sublist (persistent_id dm) x"
    and dec: "fromNotification n (id' dm) = Inr bn"
    and ack: "shouldAcknowledge e bn"
    and tok: "getOrRefreshOAuthToken e (storePersistentId (persistent_id dm) s) = (Inr tok, s1)"
  shows "(\<forall>status. http_post e (trace s1) (AckRequest (getFcmMessageId e bn) tok) = Inr status \<longrightarrow>
            on_notification e s n dm =
              (Inr (), emit (Callback bn) (emit (Post (AckRequest (getFcmMessageId e bn) tok)) s1)) \<and>
            callbacks (trace (snd (on_notification e s n dm))) = callbacks (trace s) @ [bn]) \<and>
         (\<forall>err. http_post e (trace s1) (AckRequest (getFcmMessageId e bn) tok) = Inl err \<longrightarrow>
            on_notification e s n dm =
              (Inl err, emit (Post (AckRequest (getFcmMessageId e bn) tok)) s1) \<and>
            callbacks (trace (snd (on_notification e s n dm))) = callbacks (trace s))"
proof -
  let ?s0 = "storePersistentId (persistent_id dm) s"
  have "\<not> already_received s (persistent_id dm)"
    using fresh already_received_stored by blast
  then have eq: "on_notification e s n dm = deliver e ?s0 n dm"
    by (simp add: on_notification_def)
  from getOrRefreshOAuthToken_frame(1) [of e ?s0] tok
  obtain evs where "trace s1 = trace ?s0 @ evs" "callbacks evs = []"
    by auto
  then have cb: "callbacks (trace s1) = callbacks (trace s)"
    by (simp add: storePersistentId_def emit_def callbacks_append)
  show ?thesis
    using eq dec ack tok cb
    by (simp add: deliver_def acknowledgeNotification_def Let_def emit_def callbacks_append)
qed

theorem on_notification_ack_outcome_witness:
  "fromNotification ex_call ''m1'' = Inr (CallNotification ex_call ''m1'') \<and>
   shouldAcknowledge ex_env_500 (CallNotification ex_call ''m1'') \<and>
   fst (on_notification ex_env_500 ex_client ex_call (ex_dm ''a'' ''m1'')) = Inr () \<and>
   callbacks (trace (snd (on_notification ex_env_500 ex_client ex_call (ex_dm ''a'' ''m1'')))) =
     [CallNotification ex_call ''m1'']"
proof -
  let ?dm = "ex_dm ''a'' ''m1''"
  let ?bn = "CallNotification ex_call ''m1''"
  let ?s0 = "storePersistentId (persistent_id ?dm) ex_client"
  have fresh: "\<forall>x \<in> set (stored_ids ex_client). \<not> sublist (persistent_id ?dm) x"
    by (simp add: stored_ids_def ex_client_def)
  have dec: "fromNotification ex_call (id' ?dm) = Inr ?bn"
    by (simp add: fromNotification_def getitem_def ex_call_def ex_dm_def)
  have ack: "shouldAcknowledge ex_env_500 ?bn"
    by (simp add: ex_env_500_def ex_env_def)
  have tok: "getOrRefreshOAuthToken ex_env_500 ?s0 = (Inr ex_token, ?s0)"
    by (simp add: getOrRefreshOAuthToken_def isExpired_def storePersistentId_def emit_def
        ex_env_500_def ex_env_def ex_client_def ex_token_def)
  have post: "http_post ex_env_500 (trace ?s0) (AckRequest (getFcmMessageId ex_env_500 ?bn) ex_token) = Inr 500"
    by (simp add: ex_env_500_def ex_env_def)
  have tr: "callbacks (trace ex_client) = []"
    by (simp add: ex_client_def)
  show ?thesis
    using on_notification_ack_outcome [OF fresh dec ack tok] post dec ack tr
    by (auto simp: ex_dm_def)
qed

section \<open>Token refresh\<close>

text \<open>
  C3, as the claim states it, fails: the stored token expired at 50 on a clock that
  reads 100, the refresh exchange answers with a token that expired at 0, and
  \<open>__getOrRefreshOAuthToken\<close> returns that token, whose expiry is in the past. The
  code returns what the exchange answers without looking at its expiry.
\<close>

theorem getOrRefreshOAuthToken_refresh_counterexample:
  "oAuthTokenStorage ex_client_expired = Some ex_token_old \<and>
   expires_on ex_token_old < now ex_env_stale \<and>
   fst (getOrRefreshOAuthToken ex_env_stale ex_client_expired) = Inr ex_token_stale \<and>
   expires_on ex_token_stale < now ex_env_stale"
  by (simp add: getOrRefreshOAuthToken_def isExpired_def emit_def Let_def ex_env_stale_def
      ex_env_def ex_client_expired_def ex_client_def ex_token_old_def ex_token_stale_def)

text \<open>
  C3, amended. For every stored token whose expiry is in the past,
  \<open>__getOrRefreshOAuthToken\<close> performs exactly one refresh exchange. When the
  exchange answers with a token, whatever its expiry, that token is stored and then
  returned: the new events are the exchange followed by the store, and the storage holds
  the returned token. When the exchange raises, the error leaves the function after the
  one exchange and the storage is as before. A stored token that \<open>isExpired()\<close> does
  not report as expired is returned unchanged, with the client and the trace untouched:
  no refresh and no store.
\<close>

theorem getOrRefreshOAuthToken_refresh:
  "(oAuthTokenStorage s = Some tok \<and> expires_on tok < now e \<and>
    updateOAuthToken e (trace s) (getAuthHeader e s) tok = Inr tok' \<longrightarrow>
      fst (getOrRefreshOAuthToken e s) = Inr tok' \<and>
      trace (snd (getOrRefreshOAuthToken e s)) =
        trace s @ [RefreshExchange (getAuthHeader e s) tok, StoreOAuthToken tok'] \<and>
      oAuthTokenStorage (snd (getOrRefreshOAuthToken e s)) = Some tok') \<and>
   (oAuthTokenStorage s = Some tok \<and> expires_on tok < now e \<and>
    updateOAuthToken e (trace s) (getAuthHeader e s) tok = Inl err \<longrightarrow>
      fst (getOrRefreshOAuthToken e s) = Inl err \<and>
      trace (snd (getOrRefreshOAuthToken e s)) =
        trace s @ [RefreshExchange (getAuthHeader e s) tok] \<and>
      oAuthTokenStorage (snd (getOrRefreshOAuthToken e s)) = Some tok) \<and>
   (oAuthTokenStorage s = Some tok \<and> \<not> isExpired e tok \<longrightarrow>
      getOrRefreshOAuthToken e s = (Inr tok, s))"
  by (simp add: getOrRefreshOAuthToken_def isExpired_def emit_def Let_def)

theorem getOrRefreshOAuthToken_refresh_witness:
  "fst (getOrRefreshOAuthToken ex_env ex_client_expired) = Inr ex_token_new \<and>
   trace (snd (getOrRefreshOAuthToken ex_env ex_client_expired)) =
     [RefreshExchange ''cid:secret'' ex_token_old, StoreOAuthToken ex_token_new] \<and>
   oAuthTokenStorage (snd (getOrRefreshOAuthToken ex_env ex_client_expired)) = Some ex_token_new \<and>
   fst (getOrRefreshOAuthToken ex_env_refused ex_client_expired) = Inl (External ''invalid_grant'') \<and>
   trace (snd (getOrRefreshOAuthToken ex_env_refused ex_client_expired)) =
     [RefreshExchange ''cid:secret'' ex_token_old] \<and>
   oAuthTokenStorage (snd (getOrRefreshOAuthToken ex_env_refused ex_client_expired)) =
     Some ex_token_old \<and>
   getOrRefreshOAuthToken ex_env ex_client = (Inr ex_token, ex_client)"
proof -
  have a: "oAuthTokenStorage ex_client_expired = Some ex_token_old"
    by (simp add: ex_client_expired_def)
  have b: "expires_on ex_token_old < now ex_env" "expires_on ex_token_old < now ex_env_refused"
    by (simp_all add: ex_token_old_def ex_env_refused_def ex_env_def)
  have h: "getAuthHeader ex_env ex_client_expired = ''cid:secret''"
    "getAuthHeader ex_env_refused ex_client_expired = ''cid:secret''"
    by (simp_all add: getAuthHeader_def ex_env_refused_def ex_env_def ex_client_expired_def
        ex_client_def)
  have c: "updateOAuthToken ex_env (trace ex_client_expired) (getAuthHeader ex_env ex_client_expired)
             ex_token_old = Inr ex_token_new"
    by (simp add: ex_env_def ex_token_old_def ex_token_new_def)
  have c': "updateOAuthToken ex_env_refused (trace ex_client_expired)
             (getAuthHeader ex_env_refused ex_client_expired) ex_token_old =
             Inl (External ''invalid_grant'')"
    by (simp add: ex_env_refused_def)
  have t: "trace ex_client_expired = []"
    by (simp add: ex_client_expired_def ex_client_def)
  have a': "oAuthTokenStorage ex_client = Some ex_token"
    by (simp add: ex_client_def)
  have b': "\<not> isExpired ex_env ex_token"
    by (simp add: isExpired_def ex_env_def ex_token_def)
  show ?thesis
    using getOrRefreshOAuthToken_refresh [of ex_client_expired ex_token_old ex_env ex_token_new]
      getOrRefreshOAuthToken_refresh [of ex_client_expired ex_token_old ex_env_refused _
        "External ''invalid_grant''"]
      getOrRefreshOAuthToken_refresh [of ex_client ex_token ex_env]
      a b c c' a' b'
    by (auto simp: h t)
qed

section \<open>Registration\<close>

text \<open>
  C8. The certificate is the SHA-512 hex digest of the concatenation of the bytes of
  \<open>str(senderId)\<close>, \<open>appId\<close>, \<open>apiKey\<close>, \<open>projectId\<close> and \<open>packageName\<close>, in that
  order and with nothing in between; two clients that agree on these five fields get
  the same certificate, whatever their other fields and storages hold.
\<close>

theorem buildPackageCert_digest:
  "buildPackageCert e s =
     sha512_hexdigest e (str_int (senderId s) @ appId s @ apiKey s @ projectId s @ packageName s) \<and>
   (senderId s = senderId s' \<and> appId s = appId s' \<and> apiKey s = apiKey s' \<and>
    projectId s = projectId s' \<and> packageName s = packageName s' \<longrightarrow>
      buildPackageCert e s = buildPackageCert e s')"
  by (simp add: buildPackageCert_def sha512_new_def sha_update_def Let_def)

theorem buildPackageCert_digest_witness:
  "buildPackageCert ex_env ex_client = ''42appkeyprojpkg'' \<and>
   ex_client_ab \<noteq> ex_client \<and>
   buildPackageCert ex_env ex_client_ab = buildPackageCert ex_env ex_client"
proof -
  have s: "str_int 42 = ''42''"
    by code_simp
  have f: "senderId ex_client = 42" "appId ex_client = ''app''" "apiKey ex_client = ''key''"
    "projectId ex_client = ''proj''" "packageName ex_client = ''pkg''"
    by (simp_all add: ex_client_def)
  have g: "senderId ex_client_ab = senderId ex_client \<and> appId ex_client_ab = appId ex_client \<and>
    apiKey ex_client_ab = apiKey ex_client \<and> projectId ex_client_ab = projectId ex_client \<and>
    packageName ex_client_ab = packageName ex_client"
    by (simp add: ex_client_ab_def)
  have d: "sha512_hexdigest ex_env = (\<lambda>s. s)"
    by (simp add: ex_env_def)
  have n: "ex_client_ab \<noteq> ex_client"
  proof
    assume "ex_client_ab = ex_client"
    then have "persistentIdsStorage ex_client_ab = persistentIdsStorage ex_client"
      by simp
    then show False
      by (simp add: ex_client_ab_def ex_client_def)
  qed
  show ?thesis
    using buildPackageCert_digest [of ex_env ex_client ex_client]
      buildPackageCert_digest [of ex_env ex_client_ab ex_client] g n
    by (simp add: s f d)
qed

text \<open>
  C5. For every client whose notification-info storage already holds credentials,
  \<open>registerAppToken\<close> makes no call of \<open>AndroidFCM.register\<close>, and neither does a
  second call after it. When the stored credentials hold a device token and
  \<open>self.deviceId\<close> is unset or equal to it, \<open>self.deviceId\<close> is that cached token
  afterwards, and the app-token request that follows the token lookup carries it.
\<close>

theorem registerAppToken_idempotent:
  assumes "credentialsStorage s = Some c"
  shows "fcm_registrations (trace (snd (registerAppToken e s active))) = fcm_registrations (trace s) \<and>
         fcm_registrations (trace (snd (registerAppToken e (snd (registerAppToken e s active)) active'))) =
           fcm_registrations (trace s) \<and>
         (getitem c ''fcm'' = Inr fcm \<and> getitem fcm ''token'' = Inr token \<and>
          (deviceId s = None \<or> deviceId s = Some token) \<longrightarrow>
            deviceId (snd (registerAppToken e s active)) = Some token \<and>
            (\<forall>tok s4. getOrRefreshOAuthToken e (s\<lparr>deviceId := Some token\<rparr>) = (Inr tok, s4) \<longrightarrow>
               trace (snd (registerAppToken e s active)) =
                 trace s4 @ [Post (AppTokenRequest token active tok)]))"
proof (intro conjI impI)
  show 1: "fcm_registrations (trace (snd (registerAppToken e s active))) = fcm_registrations (trace s)"
    by (rule registerAppToken_cached(1) [OF assms])
  have "credentialsStorage (snd (registerAppToken e s active)) = Some c"
    by (rule registerAppToken_cached(2) [OF assms])
  from registerAppToken_cached(1) [OF this, of e active'] 1
  show "fcm_registrations (trace (snd (registerAppToken e (snd (registerAppToken e s active)) active'))) =
           fcm_registrations (trace s)"
    by simp
next
  assume h: "getitem c ''fcm'' = Inr fcm \<and> getitem fcm ''token'' = Inr token \<and>
          (deviceId s = None \<or> deviceId s = Some token)"
  let ?s3 = "s\<lparr>deviceId := Some token\<rparr>"
  from h have d: "registerAppToken_deviceId e s = (Inr token, ?s3)"
    using registerAppToken_deviceId_token [OF assms, of fcm token e] by blast
  obtain r' s4 where g: "getOrRefreshOAuthToken e ?s3 = (r', s4)"
    by (cases "getOrRefreshOAuthToken e ?s3")
  from getOrRefreshOAuthToken_frame(4) [of e ?s3] g
  have d4: "deviceId s4 = Some token"
    by simp
  show "deviceId (snd (registerAppToken e s active)) = Some token"
    using d g d4
    by (auto simp: registerAppToken_def Let_def emit_def split: sum.splits)
  show "\<forall>tok s4. getOrRefreshOAuthToken e ?s3 = (Inr tok, s4) \<longrightarrow>
               trace (snd (registerAppToken e s active)) =
                 trace s4 @ [Post (AppTokenRequest token active tok)]"
    using d
    by (auto simp: registerAppToken_def Let_def emit_def split: sum.splits)
qed

theorem registerAppToken_idempotent_witness:
  "fcm_registrations (trace (snd (registerAppToken ex_env ex_client True))) = 0 \<and>
   fcm_registrations (trace (snd (registerAppToken ex_env (snd (registerAppToken ex_env ex_client True)) True))) = 0 \<and>
   deviceId (snd (registerAppToken ex_env ex_client True)) = Some ''dev1'' \<and>
   trace (snd (registerAppToken ex_env ex_client True)) = [Post (AppTokenRequest ''dev1'' True ex_token)]"
proof -
  have c: "credentialsStorage ex_client = Some ex_credentials"
    by (simp add: ex_client_def)
  have f: "getitem ex_credentials ''fcm'' = Inr [(''token'', ''dev1'')]"
    by (simp add: getitem_def ex_credentials_def)
  have k: "getitem [(''token'', ''dev1'')] ''token'' = Inr ''dev1''"
    by (simp add: getitem_def)
  have d: "deviceId ex_client = None"
    by (simp add: ex_client_def)
  have t: "trace ex_client = []"
    by (simp add: ex_client_def)
  have g: "getOrRefreshOAuthToken ex_env (ex_client\<lparr>deviceId := Some ''dev1''\<rparr>) =
      (Inr ex_token, ex_client\<lparr>deviceId := Some ''dev1''\<rparr>)"
    by (simp add: getOrRefreshOAuthToken_def isExpired_def ex_env_def ex_client_def ex_token_def)
  show ?thesis
    using registerAppToken_idempotent [OF c, of ex_env True True "[(''token'', ''dev1'')]" "''dev1''"]
      f k d g
    by (auto simp: t)
qed

section \<open>Deduplication over a run of messages\<close>




end
